theory Spec2Isabelle
  imports Complex_Main
begin

section \<open>Nexia sensor platform: values, devices and entities\<close>

subsection \<open>Python values\<close>

text \<open>
  What a vendor accessor can hand back: \<^verbatim>\<open>None\<close>, a \<^verbatim>\<open>bool\<close>, an
  \<^verbatim>\<open>int\<close>, a \<^verbatim>\<open>float\<close> or a \<^verbatim>\<open>str\<close>. A float is
  represented by the exact rational value it stands for (every finite double is a
  rational); NaN and the infinities are not represented.
\<close>

datatype pyval =
    PyNone
  | PyBool bool
  | PyInt int
  | PyFloat rat
  | PyStr string

text \<open>Python's \<^verbatim>\<open>bool(v)\<close>.\<close>

fun truthy :: "pyval \<Rightarrow> bool" where
  "truthy PyNone = False"
| "truthy (PyBool b) = b"
| "truthy (PyInt i) = (i \<noteq> 0)"
| "truthy (PyFloat q) = (q \<noteq> 0)"
| "truthy (PyStr s) = (s \<noteq> [])"

text \<open>\<^verbatim>\<open>isinstance(v, float)\<close>: \<^verbatim>\<open>bool\<close> and \<^verbatim>\<open>int\<close> are not floats.\<close>

fun is_float :: "pyval \<Rightarrow> bool" where
  "is_float (PyFloat q) = True"
| "is_float v = False"

text \<open>
  Python's builtin \<^verbatim>\<open>round(x, 1)\<close> on a float: the decimal with one fractional
  digit nearest to the exact value of \<open>x\<close>, a tie going to the even last digit. The
  result stands for the double nearest to that decimal.
\<close>

definition round_half_even :: "rat \<Rightarrow> int" where
  "round_half_even x =
     (let f = \<lfloor>x\<rfloor>; d = x - of_int f
      in if d < 1 / 2 then f
         else if 1 / 2 < d then f + 1
         else if even f then f else f + 1)"

definition py_round1 :: "rat \<Rightarrow> rat" where
  "py_round1 x = of_int (round_half_even (x * 10)) / 10"

datatype error = AttributeError | TypeError

subsection \<open>Constants of the integration and of the vendor library\<close>

text \<open>
  The string constants the two modules import (\<^verbatim>\<open>.const\<close>: \<^verbatim>\<open>DOMAIN\<close>,
  \<^verbatim>\<open>MANUFACTURER\<close>, \<^verbatim>\<open>SIGNAL_*_UPDATE\<close>; \<^verbatim>\<open>nexia.const\<close>:
  \<^verbatim>\<open>UNIT_CELSIUS\<close>) are parameters of the model.
\<close>

record nexia_const =
  DOMAIN :: string
  MANUFACTURER :: string
  SIGNAL_THERMOSTAT_UPDATE :: string
  SIGNAL_ZONE_UPDATE :: string
  SIGNAL_IQ_UPDATE :: string
  UNIT_CELSIUS :: string

subsection \<open>Host-platform enumerations\<close>

datatype UnitOfTemperature = CELSIUS | FAHRENHEIT

text \<open>A sensor's unit is \<^verbatim>\<open>PERCENTAGE\<close> or a member of \<^verbatim>\<open>UnitOfTemperature\<close>.\<close>

datatype native_unit = PERCENTAGE | Temperature UnitOfTemperature

datatype SensorDeviceClass = TEMPERATURE | HUMIDITY

datatype SensorStateClass = MEASUREMENT

subsection \<open>Vendor device objects\<close>

text \<open>
  The snapshot of vendor objects that setup walks. Every id is represented by the text
  that an f-string renders for it. The methods the two modules call are fields; the
  back reference \<^verbatim>\<open>zone.thermostat\<close> / \<^verbatim>\<open>iq.thermostat\<close> is a field of the child
  that holds the parent's data, and the parent's children are held beside it in a
  \<open>thermostat_node\<close> (a Python object graph with a cycle has no direct counterpart).
\<close>

record thermostat =
  thermostat_id :: string
  get_name :: string
  get_model :: string
  get_firmware :: string
  is_online :: bool
  get_unit :: string
  has_variable_speed_compressor :: bool
  has_outdoor_temperature :: bool
  has_relative_humidity :: bool
  get_system_status :: pyval
  get_air_cleaner_mode :: pyval
  get_current_compressor_speed :: pyval
  get_requested_compressor_speed :: pyval
  get_outdoor_temperature :: pyval
  get_relative_humidity :: pyval

record zone =
  zone_id :: string
  zone_thermostat :: thermostat
  zone_get_name :: string
  zone_get_temperature :: pyval
  zone_get_status :: pyval
  zone_get_setpoint_status :: pyval

record room_iq =
  iq_id :: string
  iq_thermostat :: thermostat
  iq_get_type :: string
  iq_get_name :: string
  iq_get_weight :: pyval
  iq_get_temperature :: pyval
  iq_get_humidity :: pyval
  iq_get_battery_level :: pyval

text \<open>
  \<^verbatim>\<open>getattr(obj, name)()\<close>. The vendor classes are not part of the two modules:
  the model gives a device object the reading accessors that setup configures a sensor
  with and treats every other name as a missing attribute. What an accessor returns is
  the value held in the snapshot; an accessor that raises is not modelled.
\<close>

definition getattr_thermostat :: "thermostat \<Rightarrow> string \<Rightarrow> error + pyval" where
  "getattr_thermostat t name =
     (if name = ''get_system_status'' then Inr (get_system_status t)
      else if name = ''get_air_cleaner_mode'' then Inr (get_air_cleaner_mode t)
      else if name = ''get_current_compressor_speed'' then Inr (get_current_compressor_speed t)
      else if name = ''get_requested_compressor_speed'' then Inr (get_requested_compressor_speed t)
      else if name = ''get_outdoor_temperature'' then Inr (get_outdoor_temperature t)
      else if name = ''get_relative_humidity'' then Inr (get_relative_humidity t)
      else Inl AttributeError)"

definition getattr_zone :: "zone \<Rightarrow> string \<Rightarrow> error + pyval" where
  "getattr_zone z name =
     (if name = ''get_temperature'' then Inr (zone_get_temperature z)
      else if name = ''get_status'' then Inr (zone_get_status z)
      else if name = ''get_setpoint_status'' then Inr (zone_get_setpoint_status z)
      else Inl AttributeError)"

definition getattr_iq :: "room_iq \<Rightarrow> string \<Rightarrow> error + pyval" where
  "getattr_iq iq name =
     (if name = ''get_weight'' then Inr (iq_get_weight iq)
      else if name = ''get_temperature'' then Inr (iq_get_temperature iq)
      else if name = ''get_humidity'' then Inr (iq_get_humidity iq)
      else if name = ''get_battery_level'' then Inr (iq_get_battery_level iq)
      else Inl AttributeError)"

record thermostat_node =
  node_thermostat :: thermostat
  node_zones :: "zone list"
  node_room_iqs :: "room_iq list"

record nexia_home =
  root_url :: string
  home_thermostats :: "thermostat_node list"

record coordinator =
  last_update_success :: bool
  nexia_home :: nexia_home

subsection \<open>Device metadata\<close>

text \<open>
  \<^verbatim>\<open>DeviceInfo\<close> is a dictionary in which every key is optional; the two keys
  that \<^verbatim>\<open>NexiaThermostatEntity.__init__\<close> leaves out are options.
\<close>

record DeviceInfo =
  configuration_url :: string
  identifiers :: "(string \<times> string) set"
  manufacturer :: string
  model :: string
  name :: string
  sw_version :: string
  suggested_area :: "string option"
  via_device :: "(string \<times> string) option"

subsection \<open>entity.py: the entity base classes\<close>

text \<open>
  \<^verbatim>\<open>NexiaEntity\<close> holds the coordinator and \<^verbatim>\<open>_attr_unique_id\<close>;
  \<^verbatim>\<open>NexiaThermostatEntity\<close> adds \<^verbatim>\<open>_thermostat\<close> and
  \<^verbatim>\<open>_attr_device_info\<close>; the zone and room-IQ classes extend it by
  \<^verbatim>\<open>_zone\<close> and \<^verbatim>\<open>_iq\<close>.
\<close>

record NexiaEntity =
  coordinator_of :: coordinator
  attr_unique_id :: string

record NexiaThermostatEntity = NexiaEntity +
  thermostat_of :: thermostat
  attr_device_info :: DeviceInfo

record NexiaThermostatZoneEntity = NexiaThermostatEntity +
  zone_of :: zone

record NexiaThermostatIqEntity = NexiaThermostatEntity +
  iq_of :: room_iq

definition NexiaThermostatEntity_init ::
  "nexia_const \<Rightarrow> coordinator \<Rightarrow> thermostat \<Rightarrow> string \<Rightarrow> NexiaThermostatEntity" where
  "NexiaThermostatEntity_init k co t unique_id =
     \<lparr> coordinator_of = co,
       attr_unique_id = unique_id,
       thermostat_of = t,
       attr_device_info =
         \<lparr> configuration_url = root_url (nexia_home co),
           identifiers = {(DOMAIN k, thermostat_id t)},
           manufacturer = MANUFACTURER k,
           model = get_model t,
           name = get_name t,
           sw_version = get_firmware t,
           suggested_area = None,
           via_device = None \<rparr> \<rparr>"

definition NexiaThermostatZoneEntity_init ::
  "nexia_const \<Rightarrow> coordinator \<Rightarrow> zone \<Rightarrow> string \<Rightarrow> NexiaThermostatZoneEntity" where
  "NexiaThermostatZoneEntity_init k co z unique_id =
     (let base = NexiaThermostatEntity_init k co (zone_thermostat z) unique_id;
          zone_name = zone_get_name z
      in NexiaThermostatEntity.extend
           (base \<lparr> attr_device_info := (attr_device_info base)
              \<lparr> identifiers := {(DOMAIN k, zone_id z)},
                name := zone_name,
                suggested_area := Some zone_name,
                via_device := Some (DOMAIN k, thermostat_id (zone_thermostat z)) \<rparr> \<rparr>)
           (NexiaThermostatZoneEntity.fields z))"

definition NexiaThermostatIqEntity_init ::
  "nexia_const \<Rightarrow> coordinator \<Rightarrow> room_iq \<Rightarrow> string \<Rightarrow> NexiaThermostatIqEntity" where
  "NexiaThermostatIqEntity_init k co iq unique_id =
     (let base = NexiaThermostatEntity_init k co (iq_thermostat iq) unique_id;
          is_builtin = (iq_get_type iq = ''thermostat'');
          nm = (if is_builtin then ''builtin'' else iq_get_name iq);
          iq_name = get_name (iq_thermostat iq) @ '' '' @ nm;
          area = (if is_builtin then get_name (iq_thermostat iq) else iq_get_name iq)
      in NexiaThermostatEntity.extend
           (base \<lparr> attr_device_info := (attr_device_info base)
              \<lparr> identifiers := {(DOMAIN k, iq_id iq)},
                name := iq_name,
                suggested_area := Some area,
                via_device := Some (DOMAIN k, thermostat_id (iq_thermostat iq)) \<rparr> \<rparr>)
           (NexiaThermostatIqEntity.fields iq))"

text \<open>
  Modelled from the spec: \<^verbatim>\<open>CoordinatorEntity.available\<close>, the base-class property
  behind \<^verbatim>\<open>super().available\<close>, is the coordinator's "last update succeeded" flag.
\<close>

definition CoordinatorEntity_available :: "'a NexiaEntity_scheme \<Rightarrow> bool" where
  "CoordinatorEntity_available e = last_update_success (coordinator_of e)"

text \<open>\<^verbatim>\<open>NexiaThermostatEntity.available\<close>, inherited by the zone and room-IQ classes.\<close>

definition available :: "'a NexiaThermostatEntity_scheme \<Rightarrow> bool" where
  "available e = (CoordinatorEntity_available e \<and> is_online (thermostat_of e))"

subsection \<open>sensor.py: the sensor entities\<close>

text \<open>
  What the three sensor classes store besides their base class: \<^verbatim>\<open>_call\<close>,
  \<^verbatim>\<open>_modifier\<close> and the \<^verbatim>\<open>SensorEntity\<close> attributes. The three constructors
  take the same arguments apart from the owning device object.
\<close>

record sensor_attrs =
  s_call :: string
  s_modifier :: "(pyval \<Rightarrow> error + pyval) option"
  attr_device_class :: "SensorDeviceClass option"
  attr_native_unit_of_measurement :: "native_unit option"
  attr_state_class :: "SensorStateClass option"
  attr_translation_key :: "string option"

datatype entity =
    NexiaThermostatSensor NexiaThermostatEntity sensor_attrs
  | NexiaThermostatZoneSensor NexiaThermostatZoneEntity sensor_attrs
  | NexiaThermostatIqSensor NexiaThermostatIqEntity sensor_attrs

definition sensor_attrs_init ::
  "string \<Rightarrow> string option \<Rightarrow> SensorDeviceClass option \<Rightarrow> native_unit option \<Rightarrow>
   SensorStateClass option \<Rightarrow> (pyval \<Rightarrow> error + pyval) option \<Rightarrow> sensor_attrs" where
  "sensor_attrs_init sensor_call translation_key sensor_class sensor_unit state_class modifier =
     \<lparr> s_call = sensor_call,
       s_modifier = modifier,
       attr_device_class = sensor_class,
       attr_native_unit_of_measurement = sensor_unit,
       attr_state_class = state_class,
       attr_translation_key = translation_key \<rparr>"

definition NexiaThermostatSensor_init ::
  "nexia_const \<Rightarrow> coordinator \<Rightarrow> thermostat \<Rightarrow> string \<Rightarrow> string option \<Rightarrow>
   SensorDeviceClass option \<Rightarrow> native_unit option \<Rightarrow> SensorStateClass option \<Rightarrow>
   (pyval \<Rightarrow> error + pyval) option \<Rightarrow> entity" where
  "NexiaThermostatSensor_init k co t sensor_call translation_key sensor_class sensor_unit
       state_class modifier =
     NexiaThermostatSensor
       (NexiaThermostatEntity_init k co t (thermostat_id t @ ''_'' @ sensor_call))
       (sensor_attrs_init sensor_call translation_key sensor_class sensor_unit state_class modifier)"

definition NexiaThermostatZoneSensor_init ::
  "nexia_const \<Rightarrow> coordinator \<Rightarrow> zone \<Rightarrow> string \<Rightarrow> string option \<Rightarrow>
   SensorDeviceClass option \<Rightarrow> native_unit option \<Rightarrow> SensorStateClass option \<Rightarrow>
   (pyval \<Rightarrow> error + pyval) option \<Rightarrow> entity" where
  "NexiaThermostatZoneSensor_init k co z sensor_call translation_key sensor_class sensor_unit
       state_class modifier =
     NexiaThermostatZoneSensor
       (NexiaThermostatZoneEntity_init k co z (zone_id z @ ''_'' @ sensor_call))
       (sensor_attrs_init sensor_call translation_key sensor_class sensor_unit state_class modifier)"

definition NexiaThermostatIqSensor_init ::
  "nexia_const \<Rightarrow> coordinator \<Rightarrow> room_iq \<Rightarrow> string \<Rightarrow> string option \<Rightarrow>
   SensorDeviceClass option \<Rightarrow> native_unit option \<Rightarrow> SensorStateClass option \<Rightarrow>
   (pyval \<Rightarrow> error + pyval) option \<Rightarrow> entity" where
  "NexiaThermostatIqSensor_init k co iq sensor_call translation_key sensor_class sensor_unit
       state_class modifier =
     NexiaThermostatIqSensor
       (NexiaThermostatIqEntity_init k co iq (iq_id iq @ ''_'' @ sensor_call))
       (sensor_attrs_init sensor_call translation_key sensor_class sensor_unit state_class modifier)"

text \<open>
  Python's \<^verbatim>\<open>round(val, 1)\<close> as \<^verbatim>\<open>native_value\<close> uses it, that is on a
  value that has passed \<^verbatim>\<open>isinstance(val, float)\<close>.
\<close>

fun py_round :: "pyval \<Rightarrow> pyval" where
  "py_round (PyFloat q) = PyFloat (py_round1 q)"
| "py_round v = v"

text \<open>
  The three \<^verbatim>\<open>native_value\<close> properties. A modifier is a function object and so
  always truthy: \<^verbatim>\<open>if self._modifier\<close> asks whether it is \<^verbatim>\<open>None\<close>. An
  exception of the accessor lookup or of the modifier leaves the property at once.
\<close>

fun native_value :: "entity \<Rightarrow> error + pyval" where
  "native_value (NexiaThermostatSensor e s) =
     (case getattr_thermostat (thermostat_of e) (s_call s) of
        Inl err \<Rightarrow> Inl err
      | Inr val \<Rightarrow>
          (case (case s_modifier s of None \<Rightarrow> Inr val | Some f \<Rightarrow> f val) of
             Inl err \<Rightarrow> Inl err
           | Inr val \<Rightarrow> Inr (if is_float val then py_round val else val)))"
| "native_value (NexiaThermostatZoneSensor e s) =
     (case getattr_zone (zone_of e) (s_call s) of
        Inl err \<Rightarrow> Inl err
      | Inr val \<Rightarrow>
          (case (case s_modifier s of None \<Rightarrow> Inr val | Some f \<Rightarrow> f val) of
             Inl err \<Rightarrow> Inl err
           | Inr val \<Rightarrow> Inr (if is_float val then py_round val else val)))"
| "native_value (NexiaThermostatIqSensor e s) =
     (case getattr_iq (iq_of e) (s_call s) of
        Inl err \<Rightarrow> Inl err
      | Inr val \<Rightarrow>
          (case (case s_modifier s of None \<Rightarrow> Inr val | Some f \<Rightarrow> f val) of
             Inl err \<Rightarrow> Inl err
           | Inr val \<Rightarrow> Inr (if is_float val then py_round val else val)))"

text \<open>\<^verbatim>\<open>_get_temperature_unit\<close>.\<close>

definition get_temperature_unit :: "nexia_const \<Rightarrow> thermostat \<Rightarrow> UnitOfTemperature" where
  "get_temperature_unit k t =
     (if get_unit t = UNIT_CELSIUS k then CELSIUS else FAHRENHEIT)"

text \<open>
  \<^verbatim>\<open>async_setup_entry\<close>, one definition for each of its three loop bodies. The
  function \<^verbatim>\<open>percent_conv\<close> of \<^verbatim>\<open>.util\<close> is the parameter \<open>percent_conv\<close>.
  Each \<^verbatim>\<open>for id in obj.get_..._ids(): x = obj.get_..._by_id(id)\<close> runs over the
  objects of the snapshot in order. The result is the list handed to
  \<^verbatim>\<open>async_add_entities\<close>.
\<close>

definition thermostat_sensors ::
  "nexia_const \<Rightarrow> (pyval \<Rightarrow> error + pyval) \<Rightarrow> coordinator \<Rightarrow> thermostat \<Rightarrow> entity list" where
  "thermostat_sensors k percent_conv co t =
     [NexiaThermostatSensor_init k co t ''get_system_status'' (Some ''system_status'')
        None None None None,
      NexiaThermostatSensor_init k co t ''get_air_cleaner_mode'' (Some ''air_cleaner_mode'')
        None None None None]
     @ (if has_variable_speed_compressor t then
          [NexiaThermostatSensor_init k co t ''get_current_compressor_speed''
             (Some ''current_compressor_speed'') None (Some PERCENTAGE) (Some MEASUREMENT)
             (Some percent_conv),
           NexiaThermostatSensor_init k co t ''get_requested_compressor_speed''
             (Some ''requested_compressor_speed'') None (Some PERCENTAGE) (Some MEASUREMENT)
             (Some percent_conv)]
        else [])
     @ (if has_outdoor_temperature t then
          [NexiaThermostatSensor_init k co t ''get_outdoor_temperature''
             (Some ''outdoor_temperature'') (Some TEMPERATURE)
             (Some (Temperature (get_temperature_unit k t))) (Some MEASUREMENT) None]
        else [])
     @ (if has_relative_humidity t then
          [NexiaThermostatSensor_init k co t ''get_relative_humidity''
             None (Some HUMIDITY) (Some PERCENTAGE) (Some MEASUREMENT) (Some percent_conv)]
        else [])"

definition zone_sensors :: "nexia_const \<Rightarrow> coordinator \<Rightarrow> thermostat \<Rightarrow> zone \<Rightarrow> entity list" where
  "zone_sensors k co t z =
     [NexiaThermostatZoneSensor_init k co z ''get_temperature''
        None (Some TEMPERATURE) (Some (Temperature (get_temperature_unit k t)))
        (Some MEASUREMENT) None,
      NexiaThermostatZoneSensor_init k co z ''get_status'' (Some ''zone_status'')
        None None None None,
      NexiaThermostatZoneSensor_init k co z ''get_setpoint_status''
        (Some ''zone_setpoint_status'') None None None None]"

definition iq_sensors ::
  "nexia_const \<Rightarrow> (pyval \<Rightarrow> error + pyval) \<Rightarrow> coordinator \<Rightarrow> thermostat \<Rightarrow> room_iq \<Rightarrow>
   entity list" where
  "iq_sensors k percent_conv co t iq =
     (if truthy (iq_get_weight iq) then
        [NexiaThermostatIqSensor_init k co iq ''get_weight'' (Some ''room_iq_weight'')
           None (Some PERCENTAGE) (Some MEASUREMENT) (Some percent_conv)]
      else [])
     @ [NexiaThermostatIqSensor_init k co iq ''get_temperature''
          None (Some TEMPERATURE) (Some (Temperature (get_temperature_unit k t)))
          (Some MEASUREMENT) None]
     @ (if truthy (iq_get_humidity iq) then
          [NexiaThermostatIqSensor_init k co iq ''get_humidity''
             None (Some HUMIDITY) (Some PERCENTAGE) (Some MEASUREMENT) None]
        else [])
     @ (if truthy (iq_get_battery_level iq) then
          [NexiaThermostatIqSensor_init k co iq ''get_battery_level'' (Some ''room_iq_battery'')
             None (Some PERCENTAGE) (Some MEASUREMENT) None]
        else [])"

definition node_sensors ::
  "nexia_const \<Rightarrow> (pyval \<Rightarrow> error + pyval) \<Rightarrow> coordinator \<Rightarrow> thermostat_node \<Rightarrow>
   entity list" where
  "node_sensors k percent_conv co n =
     thermostat_sensors k percent_conv co (node_thermostat n)
     @ concat (map (zone_sensors k co (node_thermostat n)) (node_zones n))
     @ concat (map (iq_sensors k percent_conv co (node_thermostat n)) (node_room_iqs n))"

definition async_setup_entry ::
  "nexia_const \<Rightarrow> (pyval \<Rightarrow> error + pyval) \<Rightarrow> coordinator \<Rightarrow> entity list" where
  "async_setup_entry k percent_conv co =
     concat (map (node_sensors k percent_conv co) (home_thermostats (nexia_home co)))"

subsection \<open>The dispatcher and the attach hooks\<close>

text \<open>
  Modelled from the spec: the host platform's dispatcher
  (\<^verbatim>\<open>async_dispatcher_connect\<close>, \<^verbatim>\<open>async_dispatcher_send\<close>) is not part of the two
  modules. Following the spec's notification relay, it is a list of connections, each a
  channel name with the entity whose \<^verbatim>\<open>async_write_ha_state\<close> is the callback;
  sending on a channel calls the callback of every connection on that very name, and
  \<open>state_writes\<close> records these calls in order.
\<close>

record hass =
  dispatcher :: "(string \<times> entity) list"
  state_writes :: "entity list"

definition hass_init :: hass where
  "hass_init = \<lparr> dispatcher = [], state_writes = [] \<rparr>"

definition async_dispatcher_connect :: "hass \<Rightarrow> string \<Rightarrow> entity \<Rightarrow> hass" where
  "async_dispatcher_connect h signal target =
     h \<lparr> dispatcher := dispatcher h @ [(signal, target)] \<rparr>"

definition async_dispatcher_send :: "hass \<Rightarrow> string \<Rightarrow> hass" where
  "async_dispatcher_send h signal =
     h \<lparr> state_writes :=
           state_writes h @ map snd (filter (\<lambda>c. fst c = signal) (dispatcher h)) \<rparr>"

text \<open>
  \<^verbatim>\<open>NexiaThermostatEntity.async_added_to_hass\<close>, with \<open>self\<close> the entity object the
  base-class part \<open>e\<close> belongs to. The zone and room-IQ hooks first run it through
  \<^verbatim>\<open>super()\<close> and then connect to their own channel.
\<close>

definition NexiaThermostatEntity_async_added_to_hass ::
  "nexia_const \<Rightarrow> hass \<Rightarrow> entity \<Rightarrow> 'a NexiaThermostatEntity_scheme \<Rightarrow> hass" where
  "NexiaThermostatEntity_async_added_to_hass k h self e =
     async_dispatcher_connect h
       (SIGNAL_THERMOSTAT_UPDATE k @ ''-'' @ thermostat_id (thermostat_of e)) self"

definition NexiaThermostatZoneEntity_async_added_to_hass ::
  "nexia_const \<Rightarrow> hass \<Rightarrow> entity \<Rightarrow> NexiaThermostatZoneEntity \<Rightarrow> hass" where
  "NexiaThermostatZoneEntity_async_added_to_hass k h self e =
     async_dispatcher_connect (NexiaThermostatEntity_async_added_to_hass k h self e)
       (SIGNAL_ZONE_UPDATE k @ ''-'' @ zone_id (zone_of e)) self"

definition NexiaThermostatIqEntity_async_added_to_hass ::
  "nexia_const \<Rightarrow> hass \<Rightarrow> entity \<Rightarrow> NexiaThermostatIqEntity \<Rightarrow> hass" where
  "NexiaThermostatIqEntity_async_added_to_hass k h self e =
     async_dispatcher_connect (NexiaThermostatEntity_async_added_to_hass k h self e)
       (SIGNAL_IQ_UPDATE k @ ''-'' @ iq_id (iq_of e)) self"

fun async_added_to_hass :: "nexia_const \<Rightarrow> hass \<Rightarrow> entity \<Rightarrow> hass" where
  "async_added_to_hass k h (NexiaThermostatSensor e s) =
     NexiaThermostatEntity_async_added_to_hass k h (NexiaThermostatSensor e s) e"
| "async_added_to_hass k h (NexiaThermostatZoneSensor e s) =
     NexiaThermostatZoneEntity_async_added_to_hass k h (NexiaThermostatZoneSensor e s) e"
| "async_added_to_hass k h (NexiaThermostatIqSensor e s) =
     NexiaThermostatIqEntity_async_added_to_hass k h (NexiaThermostatIqSensor e s) e"

text \<open>
  \<^verbatim>\<open>_signal_thermostat_update\<close>, \<^verbatim>\<open>_signal_zone_update\<close> and
  \<^verbatim>\<open>_signal_iq_update\<close>.
\<close>

definition signal_thermostat_update ::
  "nexia_const \<Rightarrow> hass \<Rightarrow> 'a NexiaThermostatEntity_scheme \<Rightarrow> hass" where
  "signal_thermostat_update k h e =
     async_dispatcher_send h
       (SIGNAL_THERMOSTAT_UPDATE k @ ''-'' @ thermostat_id (thermostat_of e))"

definition signal_zone_update :: "nexia_const \<Rightarrow> hass \<Rightarrow> NexiaThermostatZoneEntity \<Rightarrow> hass" where
  "signal_zone_update k h e =
     async_dispatcher_send h (SIGNAL_ZONE_UPDATE k @ ''-'' @ zone_id (zone_of e))"

definition signal_iq_update :: "nexia_const \<Rightarrow> hass \<Rightarrow> NexiaThermostatIqEntity \<Rightarrow> hass" where
  "signal_iq_update k h e =
     async_dispatcher_send h (SIGNAL_IQ_UPDATE k @ ''-'' @ iq_id (iq_of e))"

subsection \<open>Reading an entity\<close>

text \<open>
  Attribute reads on an entity of any of the three sensor classes: the inherited
  attributes live in the base-class part, the owner is \<^verbatim>\<open>_thermostat\<close>,
  \<^verbatim>\<open>_zone\<close> or \<^verbatim>\<open>_iq\<close> according to the class.
\<close>

fun sensor_of :: "entity \<Rightarrow> sensor_attrs" where
  "sensor_of (NexiaThermostatSensor e s) = s"
| "sensor_of (NexiaThermostatZoneSensor e s) = s"
| "sensor_of (NexiaThermostatIqSensor e s) = s"

fun unique_id :: "entity \<Rightarrow> string" where
  "unique_id (NexiaThermostatSensor e s) = attr_unique_id e"
| "unique_id (NexiaThermostatZoneSensor e s) = attr_unique_id e"
| "unique_id (NexiaThermostatIqSensor e s) = attr_unique_id e"

fun device_info :: "entity \<Rightarrow> DeviceInfo" where
  "device_info (NexiaThermostatSensor e s) = attr_device_info e"
| "device_info (NexiaThermostatZoneSensor e s) = attr_device_info e"
| "device_info (NexiaThermostatIqSensor e s) = attr_device_info e"

fun entity_thermostat :: "entity \<Rightarrow> thermostat" where
  "entity_thermostat (NexiaThermostatSensor e s) = thermostat_of e"
| "entity_thermostat (NexiaThermostatZoneSensor e s) = thermostat_of e"
| "entity_thermostat (NexiaThermostatIqSensor e s) = thermostat_of e"

fun entity_available :: "entity \<Rightarrow> bool" where
  "entity_available (NexiaThermostatSensor e s) = available e"
| "entity_available (NexiaThermostatZoneSensor e s) = available e"
| "entity_available (NexiaThermostatIqSensor e s) = available e"

datatype entity_kind = ThermostatKind | ZoneKind | IqKind

fun kind_of :: "entity \<Rightarrow> entity_kind" where
  "kind_of (NexiaThermostatSensor e s) = ThermostatKind"
| "kind_of (NexiaThermostatZoneSensor e s) = ZoneKind"
| "kind_of (NexiaThermostatIqSensor e s) = IqKind"

fun owner_id :: "entity \<Rightarrow> string" where
  "owner_id (NexiaThermostatSensor e s) = thermostat_id (thermostat_of e)"
| "owner_id (NexiaThermostatZoneSensor e s) = zone_id (zone_of e)"
| "owner_id (NexiaThermostatIqSensor e s) = iq_id (iq_of e)"


text \<open>
  The parent thermostat of a zone or room-IQ entity is \<^verbatim>\<open>zone.thermostat\<close> or
  \<^verbatim>\<open>iq.thermostat\<close>; \<open>parent_linked\<close> says that the entity's metadata names it as
  \<^verbatim>\<open>via_device\<close>. A thermostat sensor has no parent.
\<close>

fun parent_linked :: "nexia_const \<Rightarrow> entity \<Rightarrow> bool" where
  "parent_linked k (NexiaThermostatSensor e s) = True"
| "parent_linked k (NexiaThermostatZoneSensor e s) =
     (via_device (attr_device_info e) =
        Some (DOMAIN k, thermostat_id (zone_thermostat (zone_of e))))"
| "parent_linked k (NexiaThermostatIqSensor e s) =
     (via_device (attr_device_info e) =
        Some (DOMAIN k, thermostat_id (iq_thermostat (iq_of e))))"

subsection \<open>Channels and the life of the attached entities\<close>

text \<open>The channel name for an entity kind and an object id, as the f-strings build it.\<close>

fun signal_of :: "nexia_const \<Rightarrow> entity_kind \<Rightarrow> string" where
  "signal_of k ThermostatKind = SIGNAL_THERMOSTAT_UPDATE k"
| "signal_of k ZoneKind = SIGNAL_ZONE_UPDATE k"
| "signal_of k IqKind = SIGNAL_IQ_UPDATE k"

definition channel :: "nexia_const \<Rightarrow> entity_kind \<Rightarrow> string \<Rightarrow> string" where
  "channel k kind oid = signal_of k kind @ ''-'' @ oid"

text \<open>
  The three signal names give three separate namespaces when they are pairwise
  different and none contains the separator \<^verbatim>\<open>-\<close>.
\<close>

definition signal_names_ok :: "nexia_const \<Rightarrow> bool" where
  "signal_names_ok k \<longleftrightarrow>
     distinct [SIGNAL_THERMOSTAT_UPDATE k, SIGNAL_ZONE_UPDATE k, SIGNAL_IQ_UPDATE k]
     \<and> CHR ''-'' \<notin> set (SIGNAL_THERMOSTAT_UPDATE k)
     \<and> CHR ''-'' \<notin> set (SIGNAL_ZONE_UPDATE k)
     \<and> CHR ''-'' \<notin> set (SIGNAL_IQ_UPDATE k)"

text \<open>
  The channels an entity is connected to once its attach hook has run: its
  thermostat's channel for every class, and its own zone or room-IQ channel besides.
\<close>

fun subscriptions :: "entity \<Rightarrow> (entity_kind \<times> string) list" where
  "subscriptions (NexiaThermostatSensor e s) =
     [(ThermostatKind, thermostat_id (thermostat_of e))]"
| "subscriptions (NexiaThermostatZoneSensor e s) =
     [(ThermostatKind, thermostat_id (thermostat_of e)), (ZoneKind, zone_id (zone_of e))]"
| "subscriptions (NexiaThermostatIqSensor e s) =
     [(ThermostatKind, thermostat_id (thermostat_of e)), (IqKind, iq_id (iq_of e))]"

text \<open>The connections that an entity's attach hook makes, by kind and id.\<close>

definition connections :: "nexia_const \<Rightarrow> entity \<Rightarrow> (string \<times> entity) list" where
  "connections k e = map (\<lambda>s. (channel k (fst s) (snd s), e)) (subscriptions e)"

text \<open>
  \<open>hears kind oid e\<close>: the channel for \<open>kind\<close> and \<open>oid\<close> is the entity's own
  channel or the channel of its thermostat.
\<close>

definition hears :: "entity_kind \<Rightarrow> string \<Rightarrow> entity \<Rightarrow> bool" where
  "hears kind oid e \<longleftrightarrow>
     (kind_of e = kind \<and> owner_id e = oid)
     \<or> (kind = ThermostatKind \<and> thermostat_id (entity_thermostat e) = oid)"

text \<open>
  What happens to the running application after setup: an entity is attached, or one
  of the three signal helpers is called on an entity.
\<close>

datatype event =
    AddedToHass entity
  | SignalThermostatUpdate entity
  | SignalZoneUpdate NexiaThermostatZoneEntity
  | SignalIqUpdate NexiaThermostatIqEntity

fun hass_step :: "nexia_const \<Rightarrow> hass \<Rightarrow> event \<Rightarrow> hass" where
  "hass_step k h (AddedToHass ent) = async_added_to_hass k h ent"
| "hass_step k h (SignalThermostatUpdate (NexiaThermostatSensor e s)) =
     signal_thermostat_update k h e"
| "hass_step k h (SignalThermostatUpdate (NexiaThermostatZoneSensor e s)) =
     signal_thermostat_update k h e"
| "hass_step k h (SignalThermostatUpdate (NexiaThermostatIqSensor e s)) =
     signal_thermostat_update k h e"
| "hass_step k h (SignalZoneUpdate e) = signal_zone_update k h e"
| "hass_step k h (SignalIqUpdate e) = signal_iq_update k h e"

definition hass_run :: "nexia_const \<Rightarrow> hass \<Rightarrow> event list \<Rightarrow> hass" where
  "hass_run k h evs = foldl (hass_step k) h evs"

definition hass_entities :: "hass \<Rightarrow> entity set" where
  "hass_entities h = snd ` set (dispatcher h) \<union> set (state_writes h)"

fun attaches_only :: "entity set \<Rightarrow> event \<Rightarrow> bool" where
  "attaches_only E (AddedToHass ent) = (ent \<in> E)"
| "attaches_only E ev = True"

subsection \<open>A sample installation\<close>

text \<open>
  One thermostat with one zone and one room sensor, used to run the definitions on.
  The constants are sample values; \<open>sample_percent_conv\<close> stands in for
  \<^verbatim>\<open>percent_conv\<close>, turning a fraction into a percentage with one decimal. The
  outdoor temperature is the double that the literal \<^verbatim>\<open>72.34\<close> denotes.
\<close>

definition sample_const :: nexia_const where
  "sample_const =
     \<lparr> DOMAIN = ''nexia'',
       MANUFACTURER = ''Trane'',
       SIGNAL_THERMOSTAT_UPDATE = ''NEXIA_CLIMATE_THERMOSTAT_UPDATE'',
       SIGNAL_ZONE_UPDATE = ''NEXIA_CLIMATE_ZONE_UPDATE'',
       SIGNAL_IQ_UPDATE = ''NEXIA_CLIMATE_IQ_UPDATE'',
       UNIT_CELSIUS = ''C'' \<rparr>"

fun sample_percent_conv :: "pyval \<Rightarrow> error + pyval" where
  "sample_percent_conv PyNone = Inr PyNone"
| "sample_percent_conv (PyFloat q) = Inr (PyFloat (py_round1 (q * 100)))"
| "sample_percent_conv (PyInt i) = Inr (PyFloat (py_round1 (of_int i * 100)))"
| "sample_percent_conv (PyBool b) = Inr (PyFloat (if b then 100 else 0))"
| "sample_percent_conv (PyStr s) = Inl TypeError"

definition sample_thermostat :: thermostat where
  "sample_thermostat =
     \<lparr> thermostat_id = ''1'',
       get_name = ''Hall'',
       get_model = ''XL1050'',
       get_firmware = ''5.9.1'',
       is_online = True,
       get_unit = ''F'',
       has_variable_speed_compressor = True,
       has_outdoor_temperature = True,
       has_relative_humidity = True,
       get_system_status = PyStr ''Cooling'',
       get_air_cleaner_mode = PyStr ''auto'',
       get_current_compressor_speed = PyFloat (69 / 100),
       get_requested_compressor_speed = PyFloat (3 / 4),
       get_outdoor_temperature = PyFloat (2545237476906107 / 35184372088832),
       get_relative_humidity = PyFloat (13 / 25) \<rparr>"

definition sample_zone :: zone where
  "sample_zone =
     \<lparr> zone_id = ''2'',
       zone_thermostat = sample_thermostat,
       zone_get_name = ''Living'',
       zone_get_temperature = PyInt 71,
       zone_get_status = PyStr ''Idle'',
       zone_get_setpoint_status = PyStr ''Permanent Hold'' \<rparr>"

definition sample_iq :: room_iq where
  "sample_iq =
     \<lparr> iq_id = ''3'',
       iq_thermostat = sample_thermostat,
       iq_get_type = ''930'',
       iq_get_name = ''Bedroom'',
       iq_get_weight = PyFloat (1 / 2),
       iq_get_temperature = PyInt 70,
       iq_get_humidity = PyInt 45,
       iq_get_battery_level = PyInt 0 \<rparr>"

definition sample_node :: thermostat_node where
  "sample_node =
     \<lparr> node_thermostat = sample_thermostat,
       node_zones = [sample_zone],
       node_room_iqs = [sample_iq] \<rparr>"

definition sample_coordinator :: coordinator where
  "sample_coordinator =
     \<lparr> last_update_success = False,
       nexia_home = \<lparr> root_url = ''https://www.mynexia.com'', home_thermostats = [sample_node] \<rparr> \<rparr>"

definition sample_zone_sensor :: entity where
  "sample_zone_sensor =
     NexiaThermostatZoneSensor_init sample_const sample_coordinator sample_zone
       ''get_status'' (Some ''zone_status'') None None None None"

definition sample_outdoor_sensor :: entity where
  "sample_outdoor_sensor =
     NexiaThermostatSensor_init sample_const sample_coordinator sample_thermostat
       ''get_outdoor_temperature'' (Some ''outdoor_temperature'') (Some TEMPERATURE)
       (Some (Temperature (get_temperature_unit sample_const sample_thermostat)))
       (Some MEASUREMENT) None"

definition sample_iq_humidity_sensor :: entity where
  "sample_iq_humidity_sensor =
     NexiaThermostatIqSensor_init sample_const sample_coordinator sample_iq ''get_humidity''
       None (Some HUMIDITY) (Some PERCENTAGE) (Some MEASUREMENT) None"

definition sample_iq_weight_sensor :: entity where
  "sample_iq_weight_sensor =
     NexiaThermostatIqSensor_init sample_const sample_coordinator sample_iq ''get_weight''
       (Some ''room_iq_weight'') None (Some PERCENTAGE) (Some MEASUREMENT)
       (Some sample_percent_conv)"

subsection \<open>Selecting sensors from the list that setup builds\<close>


definition is_iq_reading :: "string \<Rightarrow> entity \<Rightarrow> bool" where
  "is_iq_reading c e \<longleftrightarrow> kind_of e = IqKind \<and> s_call (sensor_of e) = c"

definition is_temperature_call :: "entity \<Rightarrow> bool" where
  "is_temperature_call e \<longleftrightarrow>
     s_call (sensor_of e) = ''get_outdoor_temperature''
     \<or> s_call (sensor_of e) = ''get_temperature''"

definition is_relative_humidity_sensor :: "entity \<Rightarrow> bool" where
  "is_relative_humidity_sensor e \<longleftrightarrow>
     kind_of e = ThermostatKind \<and> s_call (sensor_of e) = ''get_relative_humidity''"

definition modifier_as_created :: "(pyval \<Rightarrow> error + pyval) \<Rightarrow> entity \<Rightarrow> bool" where
  "modifier_as_created pc e \<longleftrightarrow>
     (if is_iq_reading ''get_humidity'' e \<or> is_iq_reading ''get_battery_level'' e then
        s_modifier (sensor_of e) = None
        \<and> attr_native_unit_of_measurement (sensor_of e) = Some PERCENTAGE
      else if is_relative_humidity_sensor e \<or> is_iq_reading ''get_weight'' e then
        s_modifier (sensor_of e) = Some pc
        \<and> attr_native_unit_of_measurement (sensor_of e) = Some PERCENTAGE
      else True)"

section \<open>Properties\<close>

subsection \<open>Auxiliary facts\<close>

lemmas entity_init_defs =
  NexiaThermostatEntity_init_def NexiaThermostatZoneEntity_init_def
  NexiaThermostatIqEntity_init_def Let_def
  NexiaThermostatEntity.defs NexiaThermostatZoneEntity.defs NexiaThermostatIqEntity.defs

lemmas sensor_init_defs =
  NexiaThermostatSensor_init_def NexiaThermostatZoneSensor_init_def
  NexiaThermostatIqSensor_init_def sensor_attrs_init_def

lemma thermostat_entity_fields [simp]:
  "coordinator_of (NexiaThermostatEntity_init k co t u) = co"
  "attr_unique_id (NexiaThermostatEntity_init k co t u) = u"
  "thermostat_of (NexiaThermostatEntity_init k co t u) = t"
  by (simp_all add: entity_init_defs)

lemma zone_entity_fields [simp]:
  "coordinator_of (NexiaThermostatZoneEntity_init k co z u) = co"
  "attr_unique_id (NexiaThermostatZoneEntity_init k co z u) = u"
  "thermostat_of (NexiaThermostatZoneEntity_init k co z u) = zone_thermostat z"
  "zone_of (NexiaThermostatZoneEntity_init k co z u) = z"
  by (simp_all add: entity_init_defs)

lemma iq_entity_fields [simp]:
  "coordinator_of (NexiaThermostatIqEntity_init k co iq u) = co"
  "attr_unique_id (NexiaThermostatIqEntity_init k co iq u) = u"
  "thermostat_of (NexiaThermostatIqEntity_init k co iq u) = iq_thermostat iq"
  "iq_of (NexiaThermostatIqEntity_init k co iq u) = iq"
  by (simp_all add: entity_init_defs)

lemma concat_map_Nil: "concat (map (\<lambda>x. []) xs) = []"
  by (induction xs) simp_all

lemma filter_concat_map:
  "filter P (concat (map f xs)) = concat (map (\<lambda>x. filter P (f x)) xs)"
  by (induction xs) simp_all

subsection \<open>Reading a sensor\<close>


lemma round_cases:
  "(if is_float w then py_round w else w) =
     (case w of PyFloat q \<Rightarrow> PyFloat (py_round1 q) | _ \<Rightarrow> w)"
  by (cases w) simp_all



subsection \<open>Availability\<close>

text \<open>
  C2. A thermostat-scoped entity (the base class and so every sensor of the three
  classes) is available exactly when the coordinator's last update succeeded and the
  owning thermostat is online; with a failed last update it is unavailable whatever the
  thermostat reports.
\<close>

theorem available_iff_coordinator_and_online:
  "available e = (last_update_success (coordinator_of e) \<and> is_online (thermostat_of e))
   \<and> entity_available (NexiaThermostatSensor_init k co t c tk dc un sc m) =
        (last_update_success co \<and> is_online t)
   \<and> entity_available (NexiaThermostatZoneSensor_init k co z c tk dc un sc m) =
        (last_update_success co \<and> is_online (zone_thermostat z))
   \<and> entity_available (NexiaThermostatIqSensor_init k co iq c tk dc un sc m) =
        (last_update_success co \<and> is_online (iq_thermostat iq))
   \<and> is_online (entity_thermostat sample_zone_sensor)
   \<and> \<not> entity_available sample_zone_sensor"
  by (simp add: available_def CoordinatorEntity_available_def sensor_init_defs
      sample_zone_sensor_def sample_zone_def sample_thermostat_def sample_coordinator_def)

subsection \<open>Unique ids\<close>

lemma unique_id_thermostat_sensors:
  "e \<in> set (thermostat_sensors k pc co t) \<Longrightarrow>
     unique_id e = owner_id e @ ''_'' @ s_call (sensor_of e)"
  by (auto simp: thermostat_sensors_def sensor_init_defs split: if_splits)

lemma unique_id_zone_sensors:
  "e \<in> set (zone_sensors k co t z) \<Longrightarrow>
     unique_id e = owner_id e @ ''_'' @ s_call (sensor_of e)"
  by (auto simp: zone_sensors_def sensor_init_defs)

lemma unique_id_iq_sensors:
  "e \<in> set (iq_sensors k pc co t iq) \<Longrightarrow>
     unique_id e = owner_id e @ ''_'' @ s_call (sensor_of e)"
  by (auto simp: iq_sensors_def sensor_init_defs split: if_splits)

lemma unique_id_setup:
  "e \<in> set (async_setup_entry k pc co) \<Longrightarrow>
     unique_id e = owner_id e @ ''_'' @ s_call (sensor_of e)"
  by (auto simp: async_setup_entry_def node_sensors_def
      dest: unique_id_thermostat_sensors unique_id_zone_sensors unique_id_iq_sensors)

lemma unique_ids_thermostat_sensors:
  "map unique_id (thermostat_sensors k pc co t) = map unique_id (thermostat_sensors k' pc' co' t)"
  by (simp add: thermostat_sensors_def sensor_init_defs)

lemma unique_ids_zone_sensors:
  "map unique_id (zone_sensors k co t z) = map unique_id (zone_sensors k' co' t' z)"
  by (simp add: zone_sensors_def sensor_init_defs)

lemma unique_ids_iq_sensors:
  "map unique_id (iq_sensors k pc co t iq) = map unique_id (iq_sensors k' pc' co' t' iq)"
  by (simp add: iq_sensors_def sensor_init_defs)

lemma unique_ids_node:
  "map unique_id (node_sensors k pc co n) = map unique_id (node_sensors k' pc' co' n)"
proof -
  let ?t = "node_thermostat n"
  have z: "(\<lambda>z. map unique_id (zone_sensors k co ?t z)) =
           (\<lambda>z. map unique_id (zone_sensors k' co' ?t z))"
    by (rule ext) (rule unique_ids_zone_sensors)
  have i: "(\<lambda>iq. map unique_id (iq_sensors k pc co ?t iq)) =
           (\<lambda>iq. map unique_id (iq_sensors k' pc' co' ?t iq))"
    by (rule ext) (rule unique_ids_iq_sensors)
  show ?thesis
    by (simp add: node_sensors_def map_concat comp_def z i
        unique_ids_thermostat_sensors [of k pc co ?t k' pc' co'])
qed

lemma unique_ids_setup:
  assumes "home_thermostats (nexia_home co) = home_thermostats (nexia_home co')"
  shows "map unique_id (async_setup_entry k pc co) = map unique_id (async_setup_entry k' pc' co')"
proof -
  have "map unique_id (async_setup_entry k pc co) =
        concat (map (\<lambda>n. map unique_id (node_sensors k pc co n)) (home_thermostats (nexia_home co)))"
    by (simp add: async_setup_entry_def map_concat comp_def)
  also have "\<dots> = concat (map (\<lambda>n. map unique_id (node_sensors k' pc' co' n)) (home_thermostats (nexia_home co')))"
    using unique_ids_node [of k pc co _ k' pc' co'] assms by simp
  also have "\<dots> = map unique_id (async_setup_entry k' pc' co')"
    by (simp add: async_setup_entry_def map_concat comp_def)
  finally show ?thesis .
qed

text \<open>
  C3. The unique id of a sensor entity of any of the three classes is the owner's id,
  an underscore and the accessor name; this holds for every entity that setup creates,
  and the unique ids that setup produces depend on the device snapshot only, so a second
  setup over the same snapshot yields the same ids (whatever the constants, the
  modifier function or the coordinator's other state).
\<close>

theorem sensor_unique_id:
  "unique_id (NexiaThermostatSensor_init k co t c tk dc un sc m) = thermostat_id t @ ''_'' @ c
   \<and> unique_id (NexiaThermostatZoneSensor_init k co z c tk dc un sc m) = zone_id z @ ''_'' @ c
   \<and> unique_id (NexiaThermostatIqSensor_init k co iq c tk dc un sc m) = iq_id iq @ ''_'' @ c
   \<and> (\<forall>ent \<in> set (async_setup_entry k pc co).
         unique_id ent = owner_id ent @ ''_'' @ s_call (sensor_of ent))
   \<and> (home_thermostats (nexia_home co) = home_thermostats (nexia_home co') \<longrightarrow>
         map unique_id (async_setup_entry k pc co) =
         map unique_id (async_setup_entry k' pc' co'))"
proof -
  have a: "unique_id (NexiaThermostatSensor_init k co t c tk dc un sc m) = thermostat_id t @ ''_'' @ c"
    by (simp add: sensor_init_defs)
  have b: "unique_id (NexiaThermostatZoneSensor_init k co z c tk dc un sc m) = zone_id z @ ''_'' @ c"
    by (simp add: sensor_init_defs)
  have c: "unique_id (NexiaThermostatIqSensor_init k co iq c tk dc un sc m) = iq_id iq @ ''_'' @ c"
    by (simp add: sensor_init_defs)
  from a b c unique_id_setup [of _ k pc co] unique_ids_setup [of co co' k pc k' pc']
  show ?thesis by blast
qed

lemma sample_setup:
  "async_setup_entry sample_const sample_percent_conv sample_coordinator =
     thermostat_sensors sample_const sample_percent_conv sample_coordinator sample_thermostat
     @ zone_sensors sample_const sample_coordinator sample_thermostat sample_zone
     @ iq_sensors sample_const sample_percent_conv sample_coordinator sample_thermostat sample_iq"
  by (simp add: async_setup_entry_def node_sensors_def sample_coordinator_def sample_node_def)

lemma sample_ids:
  "map unique_id (async_setup_entry sample_const sample_percent_conv sample_coordinator) =
     [''1_get_system_status'', ''1_get_air_cleaner_mode'', ''1_get_current_compressor_speed'',
      ''1_get_requested_compressor_speed'', ''1_get_outdoor_temperature'',
      ''1_get_relative_humidity'', ''2_get_temperature'', ''2_get_status'',
      ''2_get_setpoint_status'', ''3_get_weight'', ''3_get_temperature'', ''3_get_humidity'']"
  by (simp add: sample_setup thermostat_sensors_def zone_sensors_def iq_sensors_def
      sensor_init_defs sample_thermostat_def sample_zone_def sample_iq_def)

theorem sensor_unique_id_witness:
  "sample_zone_sensor \<in> set (async_setup_entry sample_const sample_percent_conv sample_coordinator)
   \<and> unique_id sample_zone_sensor = ''2_get_status''
   \<and> home_thermostats (nexia_home sample_coordinator) =
       home_thermostats (nexia_home (sample_coordinator \<lparr> last_update_success := True \<rparr>))
   \<and> map unique_id (async_setup_entry sample_const Inr
         (sample_coordinator \<lparr> last_update_success := True \<rparr>)) =
     [''1_get_system_status'', ''1_get_air_cleaner_mode'', ''1_get_current_compressor_speed'',
      ''1_get_requested_compressor_speed'', ''1_get_outdoor_temperature'',
      ''1_get_relative_humidity'', ''2_get_temperature'', ''2_get_status'',
      ''2_get_setpoint_status'', ''3_get_weight'', ''3_get_temperature'', ''3_get_humidity'']"
proof -
  let ?co = "sample_coordinator \<lparr> last_update_success := True \<rparr>"
  have mem: "sample_zone_sensor \<in>
      set (async_setup_entry sample_const sample_percent_conv sample_coordinator)"
    by (simp add: sample_setup zone_sensors_def sample_zone_sensor_def)
  have h: "home_thermostats (nexia_home sample_coordinator) = home_thermostats (nexia_home ?co)"
    by simp
  have o: "owner_id sample_zone_sensor @ ''_'' @ s_call (sensor_of sample_zone_sensor) =
      ''2_get_status''"
    by (simp add: sample_zone_sensor_def sensor_init_defs sample_zone_def)
  note inst = sensor_unique_id [of sample_const sample_coordinator _ _ _ _ _ _ _ _ _
      sample_percent_conv ?co sample_const Inr]
  from inst mem have u: "unique_id sample_zone_sensor =
      owner_id sample_zone_sensor @ ''_'' @ s_call (sensor_of sample_zone_sensor)"
    by blast
  from inst h have "map unique_id (async_setup_entry sample_const sample_percent_conv sample_coordinator) =
      map unique_id (async_setup_entry sample_const Inr ?co)"
    by blast
  with sample_ids mem h u o show ?thesis by simp
qed

subsection \<open>Which sensors setup creates\<close>






lemma iq_reading_thermostat_sensors:
  "filter (is_iq_reading c) (thermostat_sensors k pc co t) = []"
  by (simp add: thermostat_sensors_def is_iq_reading_def sensor_init_defs)

lemma iq_reading_zone_sensors:
  "filter (is_iq_reading c) (zone_sensors k co t z) = []"
  by (simp add: zone_sensors_def is_iq_reading_def sensor_init_defs)

lemma iq_reading_setup:
  "filter (is_iq_reading c) (async_setup_entry k pc co) =
     concat (map (\<lambda>n. concat (map (\<lambda>iq.
         filter (is_iq_reading c) (iq_sensors k pc co (node_thermostat n) iq))
       (node_room_iqs n))) (home_thermostats (nexia_home co)))"
  by (simp add: async_setup_entry_def node_sensors_def filter_concat_map concat_map_Nil
      iq_reading_thermostat_sensors iq_reading_zone_sensors)

lemma iq_weight_sensors:
  "filter (is_iq_reading ''get_weight'') (iq_sensors k pc co t iq) =
     (if truthy (iq_get_weight iq) then
        [NexiaThermostatIqSensor_init k co iq ''get_weight'' (Some ''room_iq_weight'')
           None (Some PERCENTAGE) (Some MEASUREMENT) (Some pc)]
      else [])"
  by (simp add: iq_sensors_def is_iq_reading_def sensor_init_defs)

lemma iq_humidity_sensors:
  "filter (is_iq_reading ''get_humidity'') (iq_sensors k pc co t iq) =
     (if truthy (iq_get_humidity iq) then
        [NexiaThermostatIqSensor_init k co iq ''get_humidity''
           None (Some HUMIDITY) (Some PERCENTAGE) (Some MEASUREMENT) None]
      else [])"
  by (simp add: iq_sensors_def is_iq_reading_def sensor_init_defs)

lemma iq_battery_sensors:
  "filter (is_iq_reading ''get_battery_level'') (iq_sensors k pc co t iq) =
     (if truthy (iq_get_battery_level iq) then
        [NexiaThermostatIqSensor_init k co iq ''get_battery_level'' (Some ''room_iq_battery'')
           None (Some PERCENTAGE) (Some MEASUREMENT) None]
      else [])"
  by (simp add: iq_sensors_def is_iq_reading_def sensor_init_defs)

lemma iq_temperature_sensors:
  "filter (is_iq_reading ''get_temperature'') (iq_sensors k pc co t iq) =
     [NexiaThermostatIqSensor_init k co iq ''get_temperature''
        None (Some TEMPERATURE) (Some (Temperature (get_temperature_unit k t)))
        (Some MEASUREMENT) None]"
  by (simp add: iq_sensors_def is_iq_reading_def sensor_init_defs)

text \<open>
  C5. For a room IQ sensor of the snapshot and each of the readings weight, humidity
  and battery level, setup creates no sensor entity for the reading when it is falsy
  (zero) and exactly one when it is not; the room-IQ sensors of a reading in the whole
  setup are those created for the room IQ sensors of its thermostats.
\<close>

theorem iq_optional_sensors:
  "filter (is_iq_reading ''get_weight'') (iq_sensors k pc co t iq) =
     (if truthy (iq_get_weight iq) then
        [NexiaThermostatIqSensor_init k co iq ''get_weight'' (Some ''room_iq_weight'')
           None (Some PERCENTAGE) (Some MEASUREMENT) (Some pc)]
      else [])
   \<and> filter (is_iq_reading ''get_humidity'') (iq_sensors k pc co t iq) =
     (if truthy (iq_get_humidity iq) then
        [NexiaThermostatIqSensor_init k co iq ''get_humidity''
           None (Some HUMIDITY) (Some PERCENTAGE) (Some MEASUREMENT) None]
      else [])
   \<and> filter (is_iq_reading ''get_battery_level'') (iq_sensors k pc co t iq) =
     (if truthy (iq_get_battery_level iq) then
        [NexiaThermostatIqSensor_init k co iq ''get_battery_level'' (Some ''room_iq_battery'')
           None (Some PERCENTAGE) (Some MEASUREMENT) None]
      else [])
   \<and> length (filter (is_iq_reading ''get_weight'') (iq_sensors k pc co t iq)) =
       (if truthy (iq_get_weight iq) then 1 else 0)
   \<and> length (filter (is_iq_reading ''get_humidity'') (iq_sensors k pc co t iq)) =
       (if truthy (iq_get_humidity iq) then 1 else 0)
   \<and> length (filter (is_iq_reading ''get_battery_level'') (iq_sensors k pc co t iq)) =
       (if truthy (iq_get_battery_level iq) then 1 else 0)
   \<and> filter (is_iq_reading c) (async_setup_entry k pc co) =
       concat (map (\<lambda>n. concat (map (\<lambda>iq.
           filter (is_iq_reading c) (iq_sensors k pc co (node_thermostat n) iq))
         (node_room_iqs n))) (home_thermostats (nexia_home co)))"
  by (simp add: iq_weight_sensors iq_humidity_sensors iq_battery_sensors iq_reading_setup)

text \<open>
  C9. For every room IQ sensor of the snapshot setup creates exactly one temperature
  sensor entity, whatever its weight, humidity and battery readings and whatever the
  thermostat's capability flags: the room-IQ temperature sensors of the whole setup
  are one per room IQ sensor, in the order of the snapshot.
\<close>

theorem iq_temperature_sensor_always:
  "filter (is_iq_reading ''get_temperature'') (iq_sensors k pc co t iq) =
     [NexiaThermostatIqSensor_init k co iq ''get_temperature''
        None (Some TEMPERATURE) (Some (Temperature (get_temperature_unit k t)))
        (Some MEASUREMENT) None]
   \<and> filter (is_iq_reading ''get_temperature'') (async_setup_entry k pc co) =
       concat (map (\<lambda>n. map (\<lambda>iq.
           NexiaThermostatIqSensor_init k co iq ''get_temperature''
             None (Some TEMPERATURE)
             (Some (Temperature (get_temperature_unit k (node_thermostat n))))
             (Some MEASUREMENT) None)
         (node_room_iqs n)) (home_thermostats (nexia_home co)))"
proof -
  have "concat (map (\<lambda>iq. filter (is_iq_reading ''get_temperature'')
            (iq_sensors k pc co t' iq)) xs) =
        map (\<lambda>iq. NexiaThermostatIqSensor_init k co iq ''get_temperature''
             None (Some TEMPERATURE) (Some (Temperature (get_temperature_unit k t')))
             (Some MEASUREMENT) None) xs" for t' xs
    by (induction xs) (simp_all add: iq_temperature_sensors)
  then show ?thesis
    by (simp add: iq_temperature_sensors iq_reading_setup)
qed

subsection \<open>Temperature unit\<close>

lemma temperature_unit_thermostat_sensors:
  "e \<in> set (thermostat_sensors k pc co t) \<Longrightarrow> is_temperature_call e \<Longrightarrow>
     kind_of e = ThermostatKind \<and>
     attr_native_unit_of_measurement (sensor_of e) = Some (Temperature (get_temperature_unit k t))"
  by (auto simp: thermostat_sensors_def is_temperature_call_def sensor_init_defs split: if_splits)

lemma temperature_unit_zone_sensors:
  "e \<in> set (zone_sensors k co t z) \<Longrightarrow> is_temperature_call e \<Longrightarrow>
     attr_native_unit_of_measurement (sensor_of e) = Some (Temperature (get_temperature_unit k t))"
  by (auto simp: zone_sensors_def is_temperature_call_def sensor_init_defs)

lemma temperature_unit_iq_sensors:
  "e \<in> set (iq_sensors k pc co t iq) \<Longrightarrow> is_temperature_call e \<Longrightarrow>
     attr_native_unit_of_measurement (sensor_of e) = Some (Temperature (get_temperature_unit k t))"
  by (auto simp: iq_sensors_def is_temperature_call_def sensor_init_defs split: if_splits)

lemma temperature_unit_node_sensors:
  "e \<in> set (node_sensors k pc co n) \<Longrightarrow> is_temperature_call e \<Longrightarrow>
     attr_native_unit_of_measurement (sensor_of e) =
       Some (Temperature (get_temperature_unit k (node_thermostat n)))"
  by (auto simp: node_sensors_def
      dest: temperature_unit_thermostat_sensors temperature_unit_zone_sensors
        temperature_unit_iq_sensors)

text \<open>
  C6. The unit chosen for a thermostat is Celsius exactly when the thermostat's unit
  string equals \<^verbatim>\<open>UNIT_CELSIUS\<close> and Fahrenheit in every other case, and every
  temperature sensor that setup creates for the thermostat, its zones and its room IQ
  sensors (outdoor, zone and room-IQ temperature) carries that unit.
\<close>

theorem temperature_unit_celsius_iff:
  "(get_temperature_unit k t = CELSIUS) = (get_unit t = UNIT_CELSIUS k)
   \<and> (get_temperature_unit k t = FAHRENHEIT) = (get_unit t \<noteq> UNIT_CELSIUS k)
   \<and> (\<forall>e \<in> set (node_sensors k pc co n). is_temperature_call e \<longrightarrow>
         attr_native_unit_of_measurement (sensor_of e) =
           Some (Temperature (if get_unit (node_thermostat n) = UNIT_CELSIUS k
                              then CELSIUS else FAHRENHEIT)))"
proof -
  have a: "(get_temperature_unit k t = CELSIUS) = (get_unit t = UNIT_CELSIUS k)"
    by (simp add: get_temperature_unit_def)
  have b: "(get_temperature_unit k t = FAHRENHEIT) = (get_unit t \<noteq> UNIT_CELSIUS k)"
    by (simp add: get_temperature_unit_def)
  have c: "\<forall>e \<in> set (node_sensors k pc co n). is_temperature_call e \<longrightarrow>
         attr_native_unit_of_measurement (sensor_of e) =
           Some (Temperature (if get_unit (node_thermostat n) = UNIT_CELSIUS k
                              then CELSIUS else FAHRENHEIT))"
    using temperature_unit_node_sensors [of _ k pc co n]
    by (simp add: get_temperature_unit_def)
  from a b c show ?thesis by blast
qed

lemma sample_node_sensors:
  "node_sensors sample_const sample_percent_conv sample_coordinator sample_node =
     thermostat_sensors sample_const sample_percent_conv sample_coordinator sample_thermostat
     @ zone_sensors sample_const sample_coordinator sample_thermostat sample_zone
     @ iq_sensors sample_const sample_percent_conv sample_coordinator sample_thermostat sample_iq"
  by (simp add: node_sensors_def sample_node_def)

theorem temperature_unit_celsius_iff_witness:
  "sample_outdoor_sensor \<in>
     set (node_sensors sample_const sample_percent_conv sample_coordinator sample_node)
   \<and> is_temperature_call sample_outdoor_sensor
   \<and> get_unit (node_thermostat sample_node) \<noteq> UNIT_CELSIUS sample_const
   \<and> attr_native_unit_of_measurement (sensor_of sample_outdoor_sensor) =
       Some (Temperature FAHRENHEIT)"
proof -
  have mem: "sample_outdoor_sensor \<in>
     set (node_sensors sample_const sample_percent_conv sample_coordinator sample_node)"
    by (simp add: sample_node_sensors thermostat_sensors_def sample_outdoor_sensor_def
        sample_thermostat_def)
  have tc: "is_temperature_call sample_outdoor_sensor"
    by (simp add: is_temperature_call_def sample_outdoor_sensor_def sensor_init_defs)
  have u: "get_unit (node_thermostat sample_node) \<noteq> UNIT_CELSIUS sample_const"
    by (simp add: sample_node_def sample_thermostat_def sample_const_def)
  from temperature_unit_celsius_iff [of sample_const _ sample_percent_conv sample_coordinator
      sample_node] mem tc
  have "attr_native_unit_of_measurement (sensor_of sample_outdoor_sensor) =
      Some (Temperature (if get_unit (node_thermostat sample_node) = UNIT_CELSIUS sample_const
                         then CELSIUS else FAHRENHEIT))"
    by blast
  with mem tc u show ?thesis by simp
qed

subsection \<open>Which sensors convert to a percentage\<close>

lemma modifier_thermostat_sensors:
  "e \<in> set (thermostat_sensors k pc co t) \<Longrightarrow> modifier_as_created pc e"
  by (auto simp: thermostat_sensors_def modifier_as_created_def is_iq_reading_def
      is_relative_humidity_sensor_def sensor_init_defs split: if_splits)

lemma modifier_zone_sensors:
  "e \<in> set (zone_sensors k co t z) \<Longrightarrow> modifier_as_created pc e"
  by (auto simp: zone_sensors_def modifier_as_created_def is_iq_reading_def
      is_relative_humidity_sensor_def sensor_init_defs)

lemma modifier_iq_sensors:
  "e \<in> set (iq_sensors k pc co t iq) \<Longrightarrow> modifier_as_created pc e"
  by (auto simp: iq_sensors_def modifier_as_created_def is_iq_reading_def
      is_relative_humidity_sensor_def sensor_init_defs split: if_splits)

lemma modifier_setup:
  "e \<in> set (async_setup_entry k pc co) \<Longrightarrow> modifier_as_created pc e"
  by (auto simp: async_setup_entry_def node_sensors_def
      dest: modifier_thermostat_sensors modifier_zone_sensors modifier_iq_sensors)

text \<open>
  C10. The room-IQ humidity and battery sensors are created without a modifier, so
  their \<^verbatim>\<open>native_value\<close> is the accessor's result as it is, rounded only when it is
  a float, although their unit is the percentage; the thermostat relative-humidity
  sensor and the room-IQ weight sensor are created with the percentage conversion,
  which their \<^verbatim>\<open>native_value\<close> applies before the rounding.
\<close>

theorem iq_humidity_battery_unconverted:
  "native_value (NexiaThermostatIqSensor_init k co iq ''get_humidity''
       None (Some HUMIDITY) (Some PERCENTAGE) (Some MEASUREMENT) None) =
     Inr (case iq_get_humidity iq of PyFloat q \<Rightarrow> PyFloat (py_round1 q)
          | _ \<Rightarrow> iq_get_humidity iq)
   \<and> native_value (NexiaThermostatIqSensor_init k co iq ''get_battery_level''
       (Some ''room_iq_battery'') None (Some PERCENTAGE) (Some MEASUREMENT) None) =
     Inr (case iq_get_battery_level iq of PyFloat q \<Rightarrow> PyFloat (py_round1 q)
          | _ \<Rightarrow> iq_get_battery_level iq)
   \<and> native_value (NexiaThermostatSensor_init k co t ''get_relative_humidity''
       None (Some HUMIDITY) (Some PERCENTAGE) (Some MEASUREMENT) (Some pc)) =
     (case pc (get_relative_humidity t) of
        Inl err \<Rightarrow> Inl err
      | Inr w \<Rightarrow> Inr (case w of PyFloat q \<Rightarrow> PyFloat (py_round1 q) | _ \<Rightarrow> w))
   \<and> native_value (NexiaThermostatIqSensor_init k co iq ''get_weight''
       (Some ''room_iq_weight'') None (Some PERCENTAGE) (Some MEASUREMENT) (Some pc)) =
     (case pc (iq_get_weight iq) of
        Inl err \<Rightarrow> Inl err
      | Inr w \<Rightarrow> Inr (case w of PyFloat q \<Rightarrow> PyFloat (py_round1 q) | _ \<Rightarrow> w))
   \<and> (\<forall>e \<in> set (async_setup_entry k pc co). modifier_as_created pc e)"
proof -
  have a: "native_value (NexiaThermostatIqSensor_init k co iq ''get_humidity''
       None (Some HUMIDITY) (Some PERCENTAGE) (Some MEASUREMENT) None) =
     Inr (case iq_get_humidity iq of PyFloat q \<Rightarrow> PyFloat (py_round1 q)
          | _ \<Rightarrow> iq_get_humidity iq)"
    by (simp add: sensor_init_defs getattr_iq_def round_cases)
  have b: "native_value (NexiaThermostatIqSensor_init k co iq ''get_battery_level''
       (Some ''room_iq_battery'') None (Some PERCENTAGE) (Some MEASUREMENT) None) =
     Inr (case iq_get_battery_level iq of PyFloat q \<Rightarrow> PyFloat (py_round1 q)
          | _ \<Rightarrow> iq_get_battery_level iq)"
    by (simp add: sensor_init_defs getattr_iq_def round_cases)
  have c: "native_value (NexiaThermostatSensor_init k co t ''get_relative_humidity''
       None (Some HUMIDITY) (Some PERCENTAGE) (Some MEASUREMENT) (Some pc)) =
     (case pc (get_relative_humidity t) of
        Inl err \<Rightarrow> Inl err
      | Inr w \<Rightarrow> Inr (case w of PyFloat q \<Rightarrow> PyFloat (py_round1 q) | _ \<Rightarrow> w))"
    by (simp add: sensor_init_defs getattr_thermostat_def round_cases split: sum.split)
  have d: "native_value (NexiaThermostatIqSensor_init k co iq ''get_weight''
       (Some ''room_iq_weight'') None (Some PERCENTAGE) (Some MEASUREMENT) (Some pc)) =
     (case pc (iq_get_weight iq) of
        Inl err \<Rightarrow> Inl err
      | Inr w \<Rightarrow> Inr (case w of PyFloat q \<Rightarrow> PyFloat (py_round1 q) | _ \<Rightarrow> w))"
    by (simp add: sensor_init_defs getattr_iq_def round_cases split: sum.split)
  have e: "\<forall>e \<in> set (async_setup_entry k pc co). modifier_as_created pc e"
    by (blast intro: modifier_setup)
  from a b c d e show ?thesis by blast
qed

lemma sample_weight_percent: "py_round1 50 = 50"
  by code_simp

theorem iq_humidity_battery_unconverted_witness:
  "sample_iq_humidity_sensor \<in>
     set (async_setup_entry sample_const sample_percent_conv sample_coordinator)
   \<and> is_iq_reading ''get_humidity'' sample_iq_humidity_sensor
   \<and> s_modifier (sensor_of sample_iq_humidity_sensor) = None
   \<and> native_value sample_iq_humidity_sensor = Inr (PyInt 45)
   \<and> sample_iq_weight_sensor \<in>
     set (async_setup_entry sample_const sample_percent_conv sample_coordinator)
   \<and> is_iq_reading ''get_weight'' sample_iq_weight_sensor
   \<and> s_modifier (sensor_of sample_iq_weight_sensor) = Some sample_percent_conv
   \<and> native_value sample_iq_weight_sensor = Inr (PyFloat 50)"
proof -
  note inst = iq_humidity_battery_unconverted [of sample_const sample_coordinator sample_iq
      _ sample_percent_conv]
  have m1: "sample_iq_humidity_sensor \<in>
     set (async_setup_entry sample_const sample_percent_conv sample_coordinator)"
    by (simp add: sample_setup iq_sensors_def sample_iq_humidity_sensor_def sample_iq_def)
  have m2: "sample_iq_weight_sensor \<in>
     set (async_setup_entry sample_const sample_percent_conv sample_coordinator)"
    by (simp add: sample_setup iq_sensors_def sample_iq_weight_sensor_def sample_iq_def)
  have r1: "is_iq_reading ''get_humidity'' sample_iq_humidity_sensor"
    by (simp add: is_iq_reading_def sample_iq_humidity_sensor_def sensor_init_defs)
  have r2: "is_iq_reading ''get_weight'' sample_iq_weight_sensor"
    by (simp add: is_iq_reading_def sample_iq_weight_sensor_def sensor_init_defs)
  have r3: "\<not> is_iq_reading ''get_humidity'' sample_iq_weight_sensor
      \<and> \<not> is_iq_reading ''get_battery_level'' sample_iq_weight_sensor"
    by (simp add: is_iq_reading_def sample_iq_weight_sensor_def sensor_init_defs)
  from inst m1 have "modifier_as_created sample_percent_conv sample_iq_humidity_sensor"
    by blast
  with r1 have s1: "s_modifier (sensor_of sample_iq_humidity_sensor) = None"
    by (simp add: modifier_as_created_def)
  from inst m2 have "modifier_as_created sample_percent_conv sample_iq_weight_sensor"
    by blast
  with r2 r3 have s2: "s_modifier (sensor_of sample_iq_weight_sensor) = Some sample_percent_conv"
    by (simp add: modifier_as_created_def)
  from inst have v1: "native_value sample_iq_humidity_sensor = Inr (PyInt 45)"
    by (simp add: sample_iq_humidity_sensor_def sample_iq_def)
  from inst have v2: "native_value sample_iq_weight_sensor = Inr (PyFloat 50)"
    by (simp add: sample_iq_weight_sensor_def sample_iq_def sample_weight_percent)
  from m1 m2 r1 r2 s1 s2 v1 v2 show ?thesis by blast
qed

subsection \<open>Device metadata of zone and room-IQ entities\<close>

lemma parent_linked_thermostat_sensors:
  "e \<in> set (thermostat_sensors k pc co t) \<Longrightarrow> parent_linked k e"
  by (auto simp: thermostat_sensors_def sensor_init_defs split: if_splits)

lemma parent_linked_zone_sensors:
  "e \<in> set (zone_sensors k co t z) \<Longrightarrow> parent_linked k e"
  by (auto simp: zone_sensors_def sensor_init_defs entity_init_defs)

lemma parent_linked_iq_sensors:
  "e \<in> set (iq_sensors k pc co t iq) \<Longrightarrow> parent_linked k e"
  by (auto simp: iq_sensors_def sensor_init_defs entity_init_defs split: if_splits)

lemma parent_linked_setup:
  "e \<in> set (async_setup_entry k pc co) \<Longrightarrow> parent_linked k e"
  by (auto simp: async_setup_entry_def node_sensors_def
      dest: parent_linked_thermostat_sensors parent_linked_zone_sensors parent_linked_iq_sensors)

lemma hass_entities_connect:
  "hass_entities (async_dispatcher_connect h sig e) = insert e (hass_entities h)"
  by (auto simp: hass_entities_def async_dispatcher_connect_def)

lemma hass_entities_send:
  "hass_entities (async_dispatcher_send h sig) = hass_entities h"
  by (auto simp: hass_entities_def async_dispatcher_send_def)

lemma hass_entities_added:
  "hass_entities (async_added_to_hass k h e) = insert e (hass_entities h)"
  by (cases e)
    (simp_all add: NexiaThermostatEntity_async_added_to_hass_def
      NexiaThermostatZoneEntity_async_added_to_hass_def
      NexiaThermostatIqEntity_async_added_to_hass_def hass_entities_connect)

lemma hass_entities_step:
  "attaches_only E ev \<Longrightarrow> hass_entities (hass_step k h ev) \<subseteq> hass_entities h \<union> E"
proof (cases ev)
  case (AddedToHass ent)
  assume "attaches_only E ev"
  with AddedToHass show ?thesis by (auto simp: hass_entities_added)
next
  case (SignalThermostatUpdate ent)
  then show ?thesis
    by (cases ent) (simp_all add: signal_thermostat_update_def hass_entities_send)
next
  case (SignalZoneUpdate ze)
  then show ?thesis by (simp add: signal_zone_update_def hass_entities_send)
next
  case (SignalIqUpdate ie)
  then show ?thesis by (simp add: signal_iq_update_def hass_entities_send)
qed

lemma hass_entities_run:
  "\<forall>ev \<in> set evs. attaches_only E ev \<Longrightarrow>
     hass_entities (hass_run k h evs) \<subseteq> hass_entities h \<union> E"
proof (induction evs arbitrary: h)
  case Nil
  then show ?case by (simp add: hass_run_def)
next
  case (Cons ev evs)
  from Cons.prems have ev: "attaches_only E ev" and rest: "\<forall>ev \<in> set evs. attaches_only E ev"
    by simp_all
  have "hass_entities (hass_run k (hass_step k h ev) evs) \<subseteq> hass_entities (hass_step k h ev) \<union> E"
    using rest by (rule Cons.IH)
  moreover have "hass_entities (hass_step k h ev) \<subseteq> hass_entities h \<union> E"
    using ev by (rule hass_entities_step)
  ultimately show ?case by (auto simp: hass_run_def)
qed

text \<open>
  C7. After construction the device metadata of a zone entity and of a room-IQ entity
  has its identifier, name and suggested area set from the child (for a room sensor of
  type \<^verbatim>\<open>thermostat\<close>: the name "builtin" after the thermostat's name, and the
  thermostat's name as area), keeps the thermostat's remaining fields, and names as
  \<^verbatim>\<open>via_device\<close> the identifier that the parent thermostat's own metadata carries.
  No attach hook and no signal helper changes an entity: in every state of the
  application reached by attaching entities that setup created and by signalling
  updates, every zone and room-IQ entity still names its parent thermostat.
\<close>

theorem child_device_info_via_parent:
  "attr_device_info (NexiaThermostatZoneEntity_init k co z u) =
     \<lparr> configuration_url = root_url (nexia_home co),
       identifiers = {(DOMAIN k, zone_id z)},
       manufacturer = MANUFACTURER k,
       model = get_model (zone_thermostat z),
       name = zone_get_name z,
       sw_version = get_firmware (zone_thermostat z),
       suggested_area = Some (zone_get_name z),
       via_device = Some (DOMAIN k, thermostat_id (zone_thermostat z)) \<rparr>
   \<and> attr_device_info (NexiaThermostatIqEntity_init k co iq u) =
     \<lparr> configuration_url = root_url (nexia_home co),
       identifiers = {(DOMAIN k, iq_id iq)},
       manufacturer = MANUFACTURER k,
       model = get_model (iq_thermostat iq),
       name = get_name (iq_thermostat iq) @ '' '' @
         (if iq_get_type iq = ''thermostat'' then ''builtin'' else iq_get_name iq),
       sw_version = get_firmware (iq_thermostat iq),
       suggested_area = Some (if iq_get_type iq = ''thermostat''
         then get_name (iq_thermostat iq) else iq_get_name iq),
       via_device = Some (DOMAIN k, thermostat_id (iq_thermostat iq)) \<rparr>
   \<and> identifiers (attr_device_info (NexiaThermostatEntity_init k co t u')) =
       {(DOMAIN k, thermostat_id t)}
   \<and> ((\<forall>ev \<in> set evs. attaches_only (set (async_setup_entry k pc co)) ev) \<longrightarrow>
       (\<forall>e \<in> hass_entities (hass_run k hass_init evs). parent_linked k e))"
proof -
  have a: "attr_device_info (NexiaThermostatZoneEntity_init k co z u) =
     \<lparr> configuration_url = root_url (nexia_home co),
       identifiers = {(DOMAIN k, zone_id z)},
       manufacturer = MANUFACTURER k,
       model = get_model (zone_thermostat z),
       name = zone_get_name z,
       sw_version = get_firmware (zone_thermostat z),
       suggested_area = Some (zone_get_name z),
       via_device = Some (DOMAIN k, thermostat_id (zone_thermostat z)) \<rparr>"
    by (simp add: entity_init_defs)
  have b: "attr_device_info (NexiaThermostatIqEntity_init k co iq u) =
     \<lparr> configuration_url = root_url (nexia_home co),
       identifiers = {(DOMAIN k, iq_id iq)},
       manufacturer = MANUFACTURER k,
       model = get_model (iq_thermostat iq),
       name = get_name (iq_thermostat iq) @ '' '' @
         (if iq_get_type iq = ''thermostat'' then ''builtin'' else iq_get_name iq),
       sw_version = get_firmware (iq_thermostat iq),
       suggested_area = Some (if iq_get_type iq = ''thermostat''
         then get_name (iq_thermostat iq) else iq_get_name iq),
       via_device = Some (DOMAIN k, thermostat_id (iq_thermostat iq)) \<rparr>"
    by (simp add: entity_init_defs)
  have c: "identifiers (attr_device_info (NexiaThermostatEntity_init k co t u')) =
       {(DOMAIN k, thermostat_id t)}"
    by (simp add: entity_init_defs)
  have d: "(\<forall>ev \<in> set evs. attaches_only (set (async_setup_entry k pc co)) ev) \<longrightarrow>
       (\<forall>e \<in> hass_entities (hass_run k hass_init evs). parent_linked k e)"
  proof (intro impI ballI)
    fix e
    assume "\<forall>ev \<in> set evs. attaches_only (set (async_setup_entry k pc co)) ev"
    then have "hass_entities (hass_run k hass_init evs) \<subseteq>
        hass_entities hass_init \<union> set (async_setup_entry k pc co)"
      by (rule hass_entities_run)
    moreover assume "e \<in> hass_entities (hass_run k hass_init evs)"
    ultimately have "e \<in> set (async_setup_entry k pc co)"
      by (auto simp: hass_entities_def hass_init_def)
    then show "parent_linked k e" by (rule parent_linked_setup)
  qed
  from a b c d show ?thesis by blast
qed


lemma sample_zone_sensor_in_setup:
  "sample_zone_sensor \<in>
     set (async_setup_entry sample_const sample_percent_conv sample_coordinator)"
  by (simp add: sample_setup zone_sensors_def sample_zone_sensor_def)

theorem child_device_info_via_parent_witness:
  "attaches_only (set (async_setup_entry sample_const sample_percent_conv sample_coordinator))
     (AddedToHass sample_zone_sensor)
   \<and> attaches_only (set (async_setup_entry sample_const sample_percent_conv sample_coordinator))
     (SignalThermostatUpdate sample_zone_sensor)
   \<and> sample_zone_sensor \<in> hass_entities (hass_run sample_const hass_init
         [AddedToHass sample_zone_sensor, SignalThermostatUpdate sample_zone_sensor])
   \<and> parent_linked sample_const sample_zone_sensor
   \<and> via_device (device_info sample_zone_sensor) = Some (''nexia'', ''1'')"
proof -
  let ?evs = "[AddedToHass sample_zone_sensor, SignalThermostatUpdate sample_zone_sensor]"
  have att: "\<forall>ev \<in> set ?evs.
      attaches_only (set (async_setup_entry sample_const sample_percent_conv sample_coordinator)) ev"
    using sample_zone_sensor_in_setup by simp
  have "hass_entities (hass_step sample_const h (SignalThermostatUpdate e)) = hass_entities h"
    for h e
    by (cases e) (simp_all add: signal_thermostat_update_def hass_entities_send)
  then have mem: "sample_zone_sensor \<in> hass_entities (hass_run sample_const hass_init ?evs)"
    by (simp add: hass_run_def hass_entities_added del: async_added_to_hass.simps)
  from child_device_info_via_parent [of sample_const sample_coordinator _ _ _ _ _ ?evs
      sample_percent_conv] att mem
  have pl: "parent_linked sample_const sample_zone_sensor"
    by blast
  then have "via_device (device_info sample_zone_sensor) = Some (''nexia'', ''1'')"
    by (simp add: sample_zone_sensor_def sensor_init_defs sample_zone_def sample_thermostat_def
        sample_const_def)
  with att mem pl show ?thesis by simp
qed

subsection \<open>Update signals\<close>

lemma split_at_separator:
  "c \<notin> set xs \<Longrightarrow> c \<notin> set ys \<Longrightarrow> xs @ c # as = ys @ c # bs \<Longrightarrow> xs = ys \<and> as = bs"
proof (induction xs arbitrary: ys)
  case Nil
  then show ?case by (cases ys) auto
next
  case (Cons x xs)
  then show ?case by (cases ys) auto
qed

lemma signal_of_inj:
  "signal_names_ok k \<Longrightarrow> signal_of k k1 = signal_of k k2 \<Longrightarrow> k1 = k2"
  by (cases k1; cases k2) (auto simp: signal_names_ok_def)

lemma signal_of_no_separator:
  "signal_names_ok k \<Longrightarrow> CHR ''-'' \<notin> set (signal_of k kind)"
  by (cases kind) (auto simp: signal_names_ok_def)

lemma channel_inj:
  assumes "signal_names_ok k"
  shows "channel k k1 i1 = channel k k2 i2 \<longleftrightarrow> k1 = k2 \<and> i1 = i2"
proof
  assume "channel k k1 i1 = channel k k2 i2"
  then have "signal_of k k1 @ CHR ''-'' # i1 = signal_of k k2 @ CHR ''-'' # i2"
    by (simp add: channel_def)
  with signal_of_no_separator [OF assms, of k1] signal_of_no_separator [OF assms, of k2]
  have "signal_of k k1 = signal_of k k2 \<and> i1 = i2"
    by (rule split_at_separator)
  with assms show "k1 = k2 \<and> i1 = i2"
    by (auto dest: signal_of_inj)
next
  assume "k1 = k2 \<and> i1 = i2"
  then show "channel k k1 i1 = channel k k2 i2" by simp
qed

lemma added_to_hass_connections:
  "async_added_to_hass k h e =
     h \<lparr> dispatcher := dispatcher h @ connections k e \<rparr>"
  by (cases e)
    (simp_all add: NexiaThermostatEntity_async_added_to_hass_def
      NexiaThermostatZoneEntity_async_added_to_hass_def
      NexiaThermostatIqEntity_async_added_to_hass_def async_dispatcher_connect_def
      connections_def channel_def)

lemma attach_all_connections:
  "foldl (async_added_to_hass k) h es =
     h \<lparr> dispatcher := dispatcher h @ concat (map (connections k) es) \<rparr>"
  by (induction es arbitrary: h) (simp_all add: added_to_hass_connections)

lemma connections_on_channel:
  assumes "signal_names_ok k"
  shows "map snd (filter (\<lambda>c. fst c = channel k kind oid) (connections k e)) =
     (if hears kind oid e then [e] else [])"
  by (cases e; cases kind)
    (auto simp: connections_def hears_def channel_inj [OF assms])

lemma callbacks_on_channel:
  assumes "signal_names_ok k"
  shows "map snd (filter (\<lambda>c. fst c = channel k kind oid) (concat (map (connections k) es))) =
     filter (hears kind oid) es"
  by (induction es) (simp_all add: connections_on_channel [OF assms])

text \<open>
  C8 (as amended). Let the three signal names be pairwise different and free of the
  separator. After the entities \<open>es\<close> have been attached, publishing on the channel
  for a kind and an object id refreshes exactly the attached entities that are
  connected to that channel, each once and in the order of attachment: the entities
  of that kind whose owner has that id and, on a thermostat channel, also the zone and
  room-IQ entities of that thermostat, since their attach hooks connect to the
  thermostat's channel before their own. An attached entity of which neither holds is
  never refreshed by that publish. The three signal helpers publish on the channel of
  the entity's thermostat, zone and room IQ sensor.
\<close>

theorem publish_refreshes_subscribers:
  assumes "signal_names_ok k"
  shows "state_writes (async_dispatcher_send (foldl (async_added_to_hass k) hass_init es)
           (channel k kind oid)) =
         filter (hears kind oid) es
   \<and> (\<forall>e \<in> set es. \<not> hears kind oid e \<longrightarrow>
         e \<notin> set (state_writes (async_dispatcher_send
           (foldl (async_added_to_hass k) hass_init es) (channel k kind oid))))
   \<and> signal_thermostat_update k h te =
         async_dispatcher_send h (channel k ThermostatKind (thermostat_id (thermostat_of te)))
   \<and> signal_zone_update k h ze =
         async_dispatcher_send h (channel k ZoneKind (zone_id (zone_of ze)))
   \<and> signal_iq_update k h ie =
         async_dispatcher_send h (channel k IqKind (iq_id (iq_of ie)))"
proof -
  have a: "state_writes (async_dispatcher_send (foldl (async_added_to_hass k) hass_init es)
           (channel k kind oid)) = filter (hears kind oid) es"
    by (simp add: async_dispatcher_send_def attach_all_connections hass_init_def
        callbacks_on_channel [OF assms])
  have b: "\<forall>e \<in> set es. \<not> hears kind oid e \<longrightarrow>
         e \<notin> set (state_writes (async_dispatcher_send
           (foldl (async_added_to_hass k) hass_init es) (channel k kind oid)))"
    by (simp add: a)
  have c: "signal_thermostat_update k h te =
         async_dispatcher_send h (channel k ThermostatKind (thermostat_id (thermostat_of te)))"
    by (simp add: signal_thermostat_update_def channel_def)
  have d: "signal_zone_update k h ze =
         async_dispatcher_send h (channel k ZoneKind (zone_id (zone_of ze)))"
    by (simp add: signal_zone_update_def channel_def)
  have e: "signal_iq_update k h ie =
         async_dispatcher_send h (channel k IqKind (iq_id (iq_of ie)))"
    by (simp add: signal_iq_update_def channel_def)
  from a b c d e show ?thesis by blast
qed

lemma sample_signal_names_ok: "signal_names_ok sample_const"
  by (simp add: signal_names_ok_def sample_const_def)

lemma sample_sensor_kinds:
  "kind_of sample_outdoor_sensor = ThermostatKind"
  "owner_id sample_outdoor_sensor = ''1''"
  "thermostat_id (entity_thermostat sample_outdoor_sensor) = ''1''"
  "kind_of sample_zone_sensor = ZoneKind"
  "owner_id sample_zone_sensor = ''2''"
  "thermostat_id (entity_thermostat sample_zone_sensor) = ''1''"
  "kind_of sample_iq_humidity_sensor = IqKind"
  "owner_id sample_iq_humidity_sensor = ''3''"
  "thermostat_id (entity_thermostat sample_iq_humidity_sensor) = ''1''"
  by (simp_all add: sample_outdoor_sensor_def sample_zone_sensor_def
      sample_iq_humidity_sensor_def sensor_init_defs sample_zone_def sample_iq_def
      sample_thermostat_def)

theorem publish_refreshes_subscribers_witness:
  "signal_names_ok sample_const
   \<and> state_writes (async_dispatcher_send
         (foldl (async_added_to_hass sample_const) hass_init
            [sample_outdoor_sensor, sample_zone_sensor, sample_iq_humidity_sensor])
         (channel sample_const ZoneKind ''2'')) = [sample_zone_sensor]
   \<and> sample_iq_humidity_sensor \<in>
         set [sample_outdoor_sensor, sample_zone_sensor, sample_iq_humidity_sensor]
   \<and> \<not> hears ZoneKind ''2'' sample_iq_humidity_sensor
   \<and> sample_iq_humidity_sensor \<notin> set (state_writes (async_dispatcher_send
         (foldl (async_added_to_hass sample_const) hass_init
            [sample_outdoor_sensor, sample_zone_sensor, sample_iq_humidity_sensor])
         (channel sample_const ZoneKind ''2'')))"
proof -
  let ?es = "[sample_outdoor_sensor, sample_zone_sensor, sample_iq_humidity_sensor]"
  note inst = publish_refreshes_subscribers [OF sample_signal_names_ok, of ?es ZoneKind "''2''"]
  have f: "filter (hears ZoneKind ''2'') ?es = [sample_zone_sensor]"
    by (simp add: hears_def sample_sensor_kinds)
  have n: "\<not> hears ZoneKind ''2'' sample_iq_humidity_sensor"
    by (simp add: hears_def sample_sensor_kinds)
  have m: "sample_iq_humidity_sensor \<in> set ?es"
    by simp
  from inst [THEN conjunct1] f have w: "state_writes (async_dispatcher_send
         (foldl (async_added_to_hass sample_const) hass_init ?es)
         (channel sample_const ZoneKind ''2'')) = [sample_zone_sensor]"
    by (rule trans)
  from inst n m have "sample_iq_humidity_sensor \<notin> set (state_writes (async_dispatcher_send
         (foldl (async_added_to_hass sample_const) hass_init ?es)
         (channel sample_const ZoneKind ''2'')))"
    by blast
  with sample_signal_names_ok w m n show ?thesis by blast
qed

text \<open>
  C8 as stated (an entity connected under another id, or under another kind's
  namespace, is never refreshed) fails: the sample zone sensor, of kind zone and with
  zone id 2, is refreshed by a publish on the channel of thermostat 1, its parent.
\<close>

theorem publish_other_id_counterexample:
  "kind_of sample_zone_sensor = ZoneKind
   \<and> owner_id sample_zone_sensor = ''2''
   \<and> state_writes (async_dispatcher_send
         (foldl (async_added_to_hass sample_const) hass_init [sample_zone_sensor])
         (channel sample_const ThermostatKind ''1'')) = [sample_zone_sensor]"
proof -
  have "state_writes (async_dispatcher_send
         (foldl (async_added_to_hass sample_const) hass_init [sample_zone_sensor])
         (channel sample_const ThermostatKind ''1'')) =
        map snd (filter (\<lambda>c. fst c = channel sample_const ThermostatKind ''1'')
          (connections sample_const sample_zone_sensor))"
    by (simp add: async_dispatcher_send_def added_to_hass_connections hass_init_def
        del: async_added_to_hass.simps)
  also have "\<dots> = (if hears ThermostatKind ''1'' sample_zone_sensor
                    then [sample_zone_sensor] else [])"
    by (rule connections_on_channel [OF sample_signal_names_ok])
  also have "\<dots> = [sample_zone_sensor]"
    by (simp add: hears_def sample_sensor_kinds)
  finally show ?thesis
    by (simp add: sample_sensor_kinds)
qed

end
